theory Spec2Isabelle
  imports Main "HOL-Library.Signed_Division"
begin

section \<open>The bid coordination code of src/app.ts (second draft)\<close>

text \<open>
  The file holds two drafts of the server; the claims are about the second one (the
  draft with \<open>initiateRound\<close>, the service flag, the allocation check and the
  denomination check), and that is the draft embedded here.

  Node runs one callback at a time, so every handler is a function from the module's
  globals to the globals it leaves behind, together with what it sent and logged on the
  way. Bid amounts and the minimum bid are integers, as the specification's data model
  has them.
\<close>

subsection \<open>Data\<close>

text \<open>\<open>Question\<close> and \<open>History\<close> of \<open>./types\<close>, by the fields the code reads and writes
  (\<open>item.id\<close>, \<open>response[0].allocated\<close>, \<open>{ id: socket.id, bid: data.bid }\<close>).\<close>

record Question =
  id_q :: string
  allocated :: bool

record History =
  id_h :: string
  bid_h :: int

text \<open>The payload of a \<open>bid\<close> event: \<open>data.questionID\<close> and \<open>data.bid\<close>.\<close>

record data =
  questionID :: string
  bid :: int

text \<open>\<open>roundDetails.body\<close>: the fields of the fetched round that the code reads.\<close>

record body =
  questions_body :: "Question list"
  minBid_body :: int
  service :: bool

text \<open>The module's globals. \<open>roundDetails\<close> is declared without a value, so it is
  \<open>undefined\<close> (here \<open>None\<close>) until the first fetch of \<open>initiateRound\<close> has returned.\<close>

record globals =
  currentBid :: int
  history :: "History list"
  currQuestion :: string
  roundDetails :: "body option"
  questions :: "Question list"
  minBid :: int

definition initial :: globals where
  "initial = \<lparr> currentBid = 0, history = [], currQuestion = [], roundDetails = None,
               questions = [], minBid = 0 \<rparr>"

datatype exn = TypeError

text \<open>The \<open>type\<close> field of an \<open>invalid\<close> message.\<close>

datatype invalid_type = Down | QuestionID | Allocated | Denomination | Minimum | Invalid

text \<open>What a handler sends and logs. \<open>Io_history\<close> is \<open>io.emit('history', history)\<close>, to
  every client; \<open>Emit_invalid\<close> and \<open>Emit_alert\<close> are \<open>socket.emit\<close>, to the bidder alone;
  \<open>Put_allocate\<close> is the request to the allocation route being issued (its answer comes
  back later and is only logged); \<open>Log_bid\<close> is the line
  \<open>${socket.id} made a bid of ${data.bid} (current bid: ${currentBid})\<close>.\<close>

datatype event =
    Log_error string
  | Log_info string
  | Log_bid string int int
  | Log_exn exn
  | Emit_invalid invalid_type string
  | Emit_alert string
  | Io_history "History list"
  | Put_allocate string

text \<open>The way a run of the bid handler ends: on the successful path, at one of the
  \<open>invalid\<close> messages, or with an exception.\<close>

datatype outcome = Placed | Rejected invalid_type | Thrown exn

subsection \<open>Handlers\<close>

text \<open>\<open>initiateRound\<close>, from the point where the fetch has returned the round \<open>b\<close>: the
  four assignments run in the source's order, and \<open>questions[0].id\<close> throws on an empty
  list, after \<open>questions\<close> and \<open>minBid\<close> have been assigned and before \<open>currQuestion\<close> and
  \<open>currentBid\<close> are. \<open>history\<close> is not assigned.\<close>

definition initiateRound :: "body \<Rightarrow> globals \<Rightarrow> exn option \<times> globals" where
  "initiateRound b s =
     (let s1 = s\<lparr>roundDetails := Some b\<rparr>;
          s2 = s1\<lparr>questions := questions_body b\<rparr>;
          s3 = s2\<lparr>minBid := minBid_body b\<rparr>
      in case questions_body b of
           [] \<Rightarrow> (Some TypeError, s3)
         | q # _ \<Rightarrow>
             (let s4 = s3\<lparr>currQuestion := id_q q\<rparr>
              in (None, s4\<lparr>currentBid := minBid s4\<rparr>)))"

text \<open>\<open>changeQuestion\<close>, up to its first \<open>await\<close>: an async function runs synchronously
  until then, so the three assignments, the broadcast and the sending of the allocation
  request (with the token signed from the environment's secret) are done when the call
  in the bid handler returns. What follows the \<open>await\<close> only logs.\<close>

definition changeQuestion :: "string \<Rightarrow> string \<Rightarrow> globals \<Rightarrow> event list \<times> globals" where
  "changeQuestion sid i s =
     (let response = filter (\<lambda>item. id_q item = i) (questions s)
      in if length response = 0
         then ([Log_error (''Incorrect questionID supplied by '' @ sid),
                Emit_invalid Invalid ''Invalid questionID supplied''], s)
         else (let s1 = s\<lparr>history := []\<rparr>;
                   s2 = s1\<lparr>currentBid := minBid s1\<rparr>;
                   s3 = s2\<lparr>currQuestion := i\<rparr>
               in ([Io_history (history s3), Put_allocate i], s3)))"

text \<open>The \<open>bid\<close> handler of the socket \<open>sid\<close>. Reading \<open>roundDetails.body\<close> while
  \<open>roundDetails\<close> is \<open>undefined\<close> throws. JavaScript's \<open>%\<close> takes the sign of the
  dividend, which is \<open>smod\<close>.\<close>

definition bid_handler :: "string \<Rightarrow> data \<Rightarrow> globals \<Rightarrow> outcome \<times> event list \<times> globals" where
  "bid_handler sid d s =
     (case roundDetails s of
        None \<Rightarrow> (Thrown TypeError, [], s)
      | Some rd \<Rightarrow>
          if \<not> service rd
          then (Rejected Down,
                [Log_error (sid @ '' tried to bid while the service was disabled''),
                 Emit_invalid Down ''Bidding has been disabled''], s)
          else
            (let (ev, s1) = (if questionID d \<noteq> currQuestion s
                             then changeQuestion sid (questionID d) s else ([], s));
                 response = filter (\<lambda>item. id_q item = questionID d) (questions s1)
             in if length response = 0
                then (Rejected QuestionID,
                      ev @ [Log_error (''Incorrect questionID supplied by '' @ sid),
                            Emit_invalid QuestionID ''Invalid questionID supplied''], s1)
                else if allocated (hd response)
                then (Rejected Allocated,
                      ev @ [Log_error (sid @ '' tried to bid for an allocated question''),
                            Emit_invalid Allocated ''Question has already been allocated''], s1)
                else if bid d > currentBid s1
                then (if bid d smod 5 \<noteq> 0
                      then (Rejected Denomination,
                            ev @ [Emit_invalid Denomination ''Please bid in denominations of 5'',
                                  Log_info ''The bid was not divisible by 5''], s1)
                      else (let s2 = s1\<lparr>currentBid := bid d\<rparr>;
                                s3 = s2\<lparr>history := history s2 @ [\<lparr>id_h = sid, bid_h = bid d\<rparr>]\<rparr>
                            in (Placed,
                                ev @ [Log_bid sid (bid d) (currentBid s2),
                                      Io_history (history s3),
                                      Emit_alert ''Bid placed''], s3)))
                else (Rejected Minimum,
                      ev @ [Log_info (sid @ '' made a bid too small''),
                            Emit_invalid Minimum ''The bid you placed was too small''], s1)))"

text \<open>\<open>process.on('uncaughtException', ...)\<close>: the exception is logged and the process
  goes on.\<close>

definition uncaughtException :: "exn \<Rightarrow> event list" where
  "uncaughtException e = [Log_exn e]"

text \<open>What the server receives: a bid from a socket, or a change of the round document,
  which runs \<open>initiateRound\<close> on the round fetched then. An exception of the bid handler
  ends it and reaches the process-level handler. An exception inside \<open>initiateRound\<close>
  rejects the promise of that async function; how Node reports that depends on its
  version, and no event is recorded for it here. Either way the globals stay as the
  handler left them.\<close>

datatype input = Bid string data | Push body

definition step :: "input \<Rightarrow> globals \<Rightarrow> event list \<times> globals" where
  "step i s =
     (case i of
        Bid sid d \<Rightarrow>
          (case bid_handler sid d s of
             (Thrown e, ev, s') \<Rightarrow> (ev @ uncaughtException e, s')
           | (_, ev, s') \<Rightarrow> (ev, s'))
      | Push b \<Rightarrow> ([], snd (initiateRound b s)))"

fun run :: "input list \<Rightarrow> globals \<Rightarrow> globals" where
  "run [] s = s"
| "run (i # is) s = run is (snd (step i s))"

section \<open>Notions used to state the properties\<close>

text \<open>\<open>reset i s\<close> is what the \<open>else\<close> branch of \<open>changeQuestion\<close> leaves: the history
  emptied, the current bid back at the minimum bid, \<open>i\<close> the current question.\<close>

definition reset :: "string \<Rightarrow> globals \<Rightarrow> globals" where
  "reset i s = s\<lparr>history := [], currentBid := minBid s, currQuestion := i\<rparr>"

text \<open>\<open>switches d s\<close>: the bid \<open>d\<close> gets past the service check, names another question
  than the current one, and that question is in \<open>questions\<close>; these are the bids on which
  \<open>changeQuestion\<close> resets the globals.\<close>

definition switches :: "data \<Rightarrow> globals \<Rightarrow> bool" where
  "switches d s \<longleftrightarrow>
     (case roundDetails s of None \<Rightarrow> False | Some rd \<Rightarrow> service rd) \<and>
     questionID d \<noteq> currQuestion s \<and>
     filter (\<lambda>item. id_q item = questionID d) (questions s) \<noteq> []"

text \<open>The globals that the checks after the call of \<open>changeQuestion\<close> read.\<close>

definition judged :: "data \<Rightarrow> globals \<Rightarrow> globals" where
  "judged d s = (if switches d s then reset (questionID d) s else s)"

text \<open>The Bid Validator as section 4.2 of the specification words it, rule by rule, to be
  compared with \<open>bid_handler\<close>. Its decisions are written with the handler's outcomes:
  Accept is \<open>Placed\<close>, and the reasons service-disabled, unknown-question,
  question-allocated, below-minimum and bad-denomination are \<open>Rejected\<close> with \<open>Down\<close>,
  \<open>QuestionID\<close>, \<open>Allocated\<close>, \<open>Minimum\<close> and \<open>Denomination\<close>. The matching question is
  the first one of that id.\<close>

definition validate :: "globals \<Rightarrow> body \<Rightarrow> data \<Rightarrow> outcome" where
  "validate st cfg b =
     (if service cfg = False then Rejected Down
      else if questionID b \<notin> set (map id_q (questions_body cfg)) then Rejected QuestionID
      else if (case find (\<lambda>q. id_q q = questionID b) (questions_body cfg) of
                 None \<Rightarrow> False | Some q \<Rightarrow> allocated q = True) then Rejected Allocated
      else if bid b \<le> currentBid st then Rejected Minimum
      else if bid b mod 5 \<noteq> 0 then Rejected Denomination
      else Placed)"

text \<open>The \<open>type\<close>s of the \<open>invalid\<close> messages among the events, in the order sent.\<close>

fun invalid_types :: "event list \<Rightarrow> invalid_type list" where
  "invalid_types [] = []"
| "invalid_types (Emit_invalid t m # es) = t # invalid_types es"
| "invalid_types (e # es) = invalid_types es"

text \<open>A sequence of bids, each with the socket it comes from, as inputs of the server;
  the history entries of those that are placed, in the order they are handled; and the
  condition that none of them makes \<open>changeQuestion\<close> reset the globals.\<close>

definition bids :: "(string \<times> data) list \<Rightarrow> input list" where
  "bids bs = map (\<lambda>(sid, d). Bid sid d) bs"

fun accepted :: "(string \<times> data) list \<Rightarrow> globals \<Rightarrow> History list" where
  "accepted [] s = []"
| "accepted ((sid, d) # bs) s =
     (case bid_handler sid d s of
        (out, ev, s') \<Rightarrow>
          (if out = Placed then [\<lparr>id_h = sid, bid_h = bid d\<rparr>] else []) @ accepted bs s')"

fun no_switch :: "(string \<times> data) list \<Rightarrow> globals \<Rightarrow> bool" where
  "no_switch [] s = True"
| "no_switch ((sid, d) # bs) s =
     (\<not> switches d s \<and> no_switch bs (snd (snd (bid_handler sid d s))))"

text \<open>A question's activation that starts clean: with the first round loaded into the
  initial globals, or with the reset of \<open>changeQuestion\<close>; and the globals met during
  such an activation, while no bid switches the question and no round is pushed.\<close>

inductive activation_start :: "globals \<Rightarrow> bool" where
  first_load: "initiateRound b initial = (None, a) \<Longrightarrow> activation_start a"
| switch: "filter (\<lambda>item. id_q item = i) (questions s) \<noteq> [] \<Longrightarrow>
           activation_start (snd (changeQuestion sid i s))"

inductive during_activation :: "globals \<Rightarrow> bool" where
  start: "activation_start a \<Longrightarrow> during_activation a"
| bid: "during_activation s \<Longrightarrow> \<not> switches d s \<Longrightarrow>
        during_activation (snd (snd (bid_handler sid d s)))"

text \<open>The globals reachable after initialization: \<open>initiateRound\<close> has run to its end, on
  whatever globals were there (the first load or a later push of a round), and any bids
  have been handled since. A round without questions, on which \<open>initiateRound\<close> throws at
  \<open>questions[0].id\<close>, completes no initialization.\<close>

inductive initialized :: "globals \<Rightarrow> bool" where
  load: "initiateRound b s = (None, s') \<Longrightarrow> initialized s'"
| bid: "initialized s \<Longrightarrow> initialized (snd (snd (bid_handler sid d s)))"

subsection \<open>The scenario of the specification\<close>

text \<open>Two open questions, a minimum bid of 100, the service enabled (\<open>round100\<close>); the
  globals right after this round is loaded (\<open>active100\<close>) and after client \<open>c1\<close> has then
  placed 150 on the first question (\<open>bidding150\<close>). \<open>closed100\<close> is the same round with
  the service disabled, and \<open>empty200\<close> is a round that lists no question.\<close>

definition q1 :: Question where
  "q1 = \<lparr> id_q = ''q1'', allocated = False \<rparr>"

definition q2 :: Question where
  "q2 = \<lparr> id_q = ''q2'', allocated = False \<rparr>"

definition round100 :: body where
  "round100 = \<lparr> questions_body = [q1, q2], minBid_body = 100, service = True \<rparr>"

definition closed100 :: body where
  "closed100 = \<lparr> questions_body = [q1, q2], minBid_body = 100, service = False \<rparr>"

definition empty200 :: body where
  "empty200 = \<lparr> questions_body = [], minBid_body = 200, service = True \<rparr>"

definition active100 :: globals where
  "active100 = \<lparr> currentBid = 100, history = [], currQuestion = ''q1'',
                 roundDetails = Some round100, questions = [q1, q2], minBid = 100 \<rparr>"

definition bidding150 :: globals where
  "bidding150 = active100\<lparr>currentBid := 150, history := [\<lparr>id_h = ''c1'', bid_h = 150\<rparr>]\<rparr>"

definition bid_of :: "string \<Rightarrow> int \<Rightarrow> data" where
  "bid_of q n = \<lparr> questionID = q, bid = n \<rparr>"

section \<open>Lemmas about the handlers\<close>

lemmas scen = q1_def q2_def round100_def closed100_def empty200_def active100_def
  bidding150_def bid_of_def initial_def

lemmas code = bid_handler_def changeQuestion_def initiateRound_def step_def
  uncaughtException_def Let_def

lemmas aux = reset_def switches_def judged_def

text \<open>The remainder of JavaScript is zero exactly when the mathematical one is.\<close>

lemma smod_5_eq_0_iff: "(k::int) smod 5 = 0 \<longleftrightarrow> k mod 5 = 0"
  by (auto simp: signed_modulo_int_def sgn_if abs_if zmod_zminus1_eq_if split: if_splits)

lemma find_filter: "find P xs = (case filter P xs of [] \<Rightarrow> None | x # _ \<Rightarrow> Some x)"
  by (induction xs) auto

lemma filter_empty_iff: "(filter (\<lambda>item. id_q item = i) qs = []) \<longleftrightarrow> i \<notin> set (map id_q qs)"
  by (induction qs) auto

text \<open>The three ways into the bid handler: no round loaded yet, the service disabled,
  and the service enabled; in the last the handler is a chain of checks on \<open>judged d s\<close>.\<close>

lemma bid_handler_uninit:
  "roundDetails s = None \<Longrightarrow> bid_handler sid d s = (Thrown TypeError, [], s)"
  by (simp add: bid_handler_def)

lemma step_bid_uninit:
  "roundDetails s = None \<Longrightarrow> step (Bid sid d) s = ([Log_exn TypeError], s)"
  by (simp add: step_def bid_handler_def uncaughtException_def)

lemma bid_handler_down:
  "roundDetails s = Some rd \<Longrightarrow> \<not> service rd \<Longrightarrow>
   bid_handler sid d s =
     (Rejected Down,
      [Log_error (sid @ '' tried to bid while the service was disabled''),
       Emit_invalid Down ''Bidding has been disabled''], s)"
  by (simp add: bid_handler_def)

lemma changeQuestion_state:
  "snd (changeQuestion sid i s) =
     (if filter (\<lambda>item. id_q item = i) (questions s) = [] then s else reset i s)"
  by (simp add: changeQuestion_def reset_def Let_def)

lemma judged_fields [simp]:
  "questions (judged d s) = questions s"
  "roundDetails (judged d s) = roundDetails s"
  "minBid (judged d s) = minBid s"
  by (simp_all add: aux)

lemma bid_handler_on:
  "roundDetails s = Some rd \<Longrightarrow> service rd \<Longrightarrow>
   bid_handler sid d s =
     (let ev = (if questionID d \<noteq> currQuestion s
                then fst (changeQuestion sid (questionID d) s) else []);
          s1 = judged d s;
          response = filter (\<lambda>item. id_q item = questionID d) (questions s)
      in if response = []
         then (Rejected QuestionID,
               ev @ [Log_error (''Incorrect questionID supplied by '' @ sid),
                     Emit_invalid QuestionID ''Invalid questionID supplied''], s1)
         else if allocated (hd response)
         then (Rejected Allocated,
               ev @ [Log_error (sid @ '' tried to bid for an allocated question''),
                     Emit_invalid Allocated ''Question has already been allocated''], s1)
         else if bid d > currentBid s1
         then (if bid d mod 5 \<noteq> 0
               then (Rejected Denomination,
                     ev @ [Emit_invalid Denomination ''Please bid in denominations of 5'',
                           Log_info ''The bid was not divisible by 5''], s1)
               else (Placed,
                     ev @ [Log_bid sid (bid d) (bid d),
                           Io_history (history s1 @ [\<lparr>id_h = sid, bid_h = bid d\<rparr>]),
                           Emit_alert ''Bid placed''],
                     s1\<lparr>currentBid := bid d,
                        history := history s1 @ [\<lparr>id_h = sid, bid_h = bid d\<rparr>]\<rparr>))
         else (Rejected Minimum,
               ev @ [Log_info (sid @ '' made a bid too small''),
                     Emit_invalid Minimum ''The bid you placed was too small''], s1))"
  by (simp add: bid_handler_def changeQuestion_def aux Let_def smod_5_eq_0_iff)

text \<open>The globals after a bid: those the checks read, with the bid recorded if it is
  placed.\<close>

lemma state_after:
  "snd (snd (bid_handler sid d s)) =
     (if fst (bid_handler sid d s) = Placed
      then (judged d s)\<lparr>currentBid := bid d,
             history := history (judged d s) @ [\<lparr>id_h = sid, bid_h = bid d\<rparr>]\<rparr>
      else judged d s)"
proof (cases "roundDetails s")
  case None
  then show ?thesis by (simp add: bid_handler_uninit aux)
next
  case (Some rd)
  show ?thesis
  proof (cases "service rd")
    case False
    with Some show ?thesis by (simp add: bid_handler_down aux)
  next
    case True
    with Some show ?thesis by (simp add: bid_handler_on Let_def)
  qed
qed

lemma judged_same: "\<not> switches d s \<Longrightarrow> judged d s = s"
  by (simp add: judged_def)

lemma judged_active: "questionID d = currQuestion s \<Longrightarrow> judged d s = s"
  by (simp add: aux)

lemma placed_facts:
  assumes "fst (bid_handler sid d s) = Placed"
  shows "bid d mod 5 = 0" and "currentBid (judged d s) < bid d"
proof -
  from assms obtain rd where rd: "roundDetails s = Some rd"
    by (cases "roundDetails s") (simp_all add: bid_handler_uninit)
  with assms have sv: "service rd"
    by (cases "service rd") (simp_all add: bid_handler_down)
  from assms show "bid d mod 5 = 0"
    unfolding bid_handler_on [OF rd sv] by (simp add: Let_def split: if_splits)
  from assms show "currentBid (judged d s) < bid d"
    unfolding bid_handler_on [OF rd sv] by (simp add: Let_def split: if_splits)
qed

lemma outcome_eq:
  assumes "roundDetails s = Some cfg" and "questions s = questions_body cfg"
  shows "fst (bid_handler sid d s) = validate (judged d s) cfg d"
proof (cases "service cfg")
  case False
  with assms show ?thesis by (simp add: bid_handler_down validate_def)
next
  case True
  with assms show ?thesis
    by (auto simp: bid_handler_on Let_def validate_def find_filter filter_empty_iff
          split: list.splits)
qed

lemma events_types:
  "filter (\<lambda>t. t \<noteq> Invalid) (invalid_types (fst (snd (bid_handler sid d s)))) =
     (case fst (bid_handler sid d s) of Rejected k \<Rightarrow> [k] | _ \<Rightarrow> [])"
proof (cases "roundDetails s")
  case None
  then show ?thesis by (simp add: bid_handler_uninit)
next
  case (Some rd)
  show ?thesis
  proof (cases "service rd")
    case False
    with Some show ?thesis by (simp add: bid_handler_down)
  next
    case True
    with Some show ?thesis by (simp add: bid_handler_on changeQuestion_def Let_def)
  qed
qed

lemma step_bid_state: "snd (step (Bid sid d) s) = snd (snd (bid_handler sid d s))"
  by (simp add: step_def split: prod.splits outcome.splits)

lemma run_bids_Cons:
  "run (bids ((sid, d) # bs)) s = run (bids bs) (snd (snd (bid_handler sid d s)))"
  by (simp add: bids_def step_bid_state)

text \<open>\<open>initiateRound\<close> never assigns \<open>history\<close>, whether it runs to its end or throws.\<close>

lemma initiateRound_history: "history (snd (initiateRound b s)) = history s"
  by (simp add: initiateRound_def Let_def split: list.splits)

text \<open>What the bid handler does to the history and the current bid while the question
  stays: the history grows by exactly the placed bids, in order; and from a clean start
  of an activation on, the current bid is the amount of the last entry and every recorded
  amount is a multiple of 5.\<close>

lemma history_growth:
  "no_switch bs s \<Longrightarrow> history (run (bids bs) s) = history s @ accepted bs s"
proof (induction bs arbitrary: s)
  case Nil
  then show ?case by (simp add: bids_def)
next
  case (Cons b bs)
  obtain sid d where b: "b = (sid, d)" by (cases b)
  from Cons.prems b have ns: "\<not> switches d s"
    and rest: "no_switch bs (snd (snd (bid_handler sid d s)))" by simp_all
  have h: "history (snd (snd (bid_handler sid d s))) =
           history s @ (if fst (bid_handler sid d s) = Placed
                        then [\<lparr>id_h = sid, bid_h = bid d\<rparr>] else [])"
    by (simp add: state_after judged_same [OF ns])
  show ?case
    unfolding b run_bids_Cons Cons.IH [OF rest] h
    by (simp split: prod.splits)
qed

lemma activation_start_history: "activation_start a \<Longrightarrow> history a = []"
  by (induction rule: activation_start.induct)
     (auto simp: initiateRound_def initial_def Let_def changeQuestion_state reset_def
           split: list.splits)

lemma during_activation_invariant:
  "during_activation s \<Longrightarrow>
     (history s \<noteq> [] \<longrightarrow> currentBid s = bid_h (last (history s))) \<and>
     (\<forall>h \<in> set (history s). bid_h h mod 5 = 0)"
proof (induction rule: during_activation.induct)
  case (start a)
  then show ?case by (simp add: activation_start_history)
next
  case (bid s d sid)
  show ?case
  proof (cases "fst (bid_handler sid d s) = Placed")
    case True
    with bid.IH placed_facts(1) [OF True] show ?thesis
      by (simp add: state_after judged_same [OF bid.hyps(2)])
  next
    case False
    with bid.IH show ?thesis
      by (simp add: state_after judged_same [OF bid.hyps(2)])
  qed
qed

text \<open>The current bid never falls below the minimum bid once a round has been loaded,
  and a bid that does not switch the question never lowers it.\<close>

lemma initialized_invariant:
  "initialized s \<Longrightarrow>
     minBid s \<le> currentBid s \<and> (\<exists>cfg. roundDetails s = Some cfg \<and> minBid_body cfg = minBid s)"
proof (induction rule: initialized.induct)
  case (load b s s')
  then show ?case
    by (auto simp: initiateRound_def Let_def split: list.splits)
next
  case (bid s sid d)
  show ?case
  proof (cases "fst (bid_handler sid d s) = Placed")
    case True
    have "minBid s \<le> currentBid (judged d s)"
      using bid.IH by (simp add: aux)
    with bid.IH placed_facts(2) [OF True] True show ?thesis
      by (simp add: state_after)
  next
    case False
    with bid.IH show ?thesis
      by (simp add: state_after) (simp add: aux)
  qed
qed

lemma bid_raises:
  "\<not> switches d s \<Longrightarrow> currentBid s \<le> currentBid (snd (snd (bid_handler sid d s)))"
proof (cases "fst (bid_handler sid d s) = Placed")
  case True
  assume ns: "\<not> switches d s"
  from placed_facts(2) [OF True] True show ?thesis
    by (simp add: state_after judged_same [OF ns])
next
  case False
  assume ns: "\<not> switches d s"
  from False show ?thesis by (simp add: state_after judged_same [OF ns])
qed


text \<open>In all globals the server can reach, the round in \<open>roundDetails\<close> is the one the
  globals \<open>questions\<close> and \<open>minBid\<close> were taken from, and every recorded amount is a
  multiple of 5.\<close>

lemma step_keeps_config:
  assumes "\<forall>cfg. roundDetails s = Some cfg \<longrightarrow>
             questions s = questions_body cfg \<and> minBid s = minBid_body cfg"
  shows "\<forall>cfg. roundDetails (snd (step i s)) = Some cfg \<longrightarrow>
           questions (snd (step i s)) = questions_body cfg \<and>
           minBid (snd (step i s)) = minBid_body cfg"
proof (cases i)
  case (Bid sid d)
  with assms show ?thesis by (simp add: step_bid_state state_after)
next
  case (Push b)
  then show ?thesis
    by (simp add: step_def initiateRound_def Let_def split: list.splits)
qed

lemma run_keeps_config:
  "(\<forall>cfg. roundDetails s = Some cfg \<longrightarrow>
       questions s = questions_body cfg \<and> minBid s = minBid_body cfg) \<Longrightarrow>
   roundDetails (run is s) = Some cfg \<Longrightarrow>
   questions (run is s) = questions_body cfg \<and> minBid (run is s) = minBid_body cfg"
proof (induction "is" arbitrary: s)
  case Nil
  then show ?case by simp
next
  case (Cons i "is")
  from Cons.IH [OF step_keeps_config [OF Cons.prems(1)]] Cons.prems(2)
  show ?case by simp
qed

lemma config_in_effect:
  "roundDetails (run is initial) = Some cfg \<Longrightarrow>
   questions (run is initial) = questions_body cfg \<and> minBid (run is initial) = minBid_body cfg"
  by (rule run_keeps_config) (simp_all add: initial_def)

lemma step_keeps_multiples:
  assumes "\<forall>h \<in> set (history s). bid_h h mod 5 = 0"
  shows "\<forall>h \<in> set (history (snd (step i s))). bid_h h mod 5 = 0"
proof (cases i)
  case (Bid sid d)
  show ?thesis
  proof (cases "fst (bid_handler sid d s) = Placed")
    case True
    with assms placed_facts(1) [OF True] Bid show ?thesis
      by (auto simp: step_bid_state state_after aux)
  next
    case False
    with assms Bid show ?thesis by (auto simp: step_bid_state state_after aux)
  qed
next
  case (Push b)
  with assms show ?thesis by (simp add: step_def initiateRound_history)
qed

lemma recorded_amounts_multiples_of_5:
  "(\<forall>h \<in> set (history s). bid_h h mod 5 = 0) \<Longrightarrow>
   \<forall>h \<in> set (history (run is s)). bid_h h mod 5 = 0"
proof (induction "is" arbitrary: s)
  case Nil
  then show ?case by simp
next
  case (Cons i "is")
  from Cons.IH [OF step_keeps_multiples [OF Cons.prems]] show ?case by simp
qed

section \<open>The claims\<close>

subsection \<open>C1: the bids 150 and 140 against a current bid of 100\<close>

text \<open>
  C1 says that of the two bids 150 and 140, handled one after the other against a current
  bid and a minimum bid of 100, exactly one is placed in either order. Handled in the
  order 140, 150 both are placed: 150 is above the 140 just recorded.
\<close>

theorem two_bids_both_placed_counterexample:
  "fst (bid_handler ''c2'' (bid_of ''q1'' 140) active100) = Placed \<and>
   fst (bid_handler ''c1'' (bid_of ''q1'' 150)
          (snd (snd (bid_handler ''c2'' (bid_of ''q1'' 140) active100)))) = Placed"
  by (simp add: code scen)

text \<open>
  C1 as it holds of the code. Let the service be enabled, current bid and minimum bid be
  100, and \<open>q\<close> name a question that is not allocated. If 150 is handled first it is placed
  and 140 is then rejected as below the minimum; if 140 is handled first it is placed and
  150 is placed after it, leaving a current bid of 150.
\<close>

theorem two_bids_150_140:
  assumes "roundDetails s = Some rd" and "service rd"
    and "currentBid s = 100" and "minBid s = 100"
    and "filter (\<lambda>item. id_q item = q) (questions s) = x # xs" and "\<not> allocated x"
  shows "(let r1 = bid_handler a (bid_of q 150) s;
              r2 = bid_handler b (bid_of q 140) (snd (snd r1))
          in fst r1 = Placed \<and> fst r2 = Rejected Minimum) \<and>
         (let r1 = bid_handler b (bid_of q 140) s;
              r2 = bid_handler a (bid_of q 150) (snd (snd r1))
          in fst r1 = Placed \<and> fst r2 = Placed \<and> currentBid (snd (snd r2)) = 150)"
proof -
  have j: "currentBid (judged d s) = 100" for d using assms(3,4) by (simp add: aux)
  have f: "filter (\<lambda>item. id_q item = questionID (bid_of q n)) (questions s) = x # xs" for n
    using assms(5) by (simp add: bid_of_def)
  have p: "fst (bid_handler c (bid_of q n) s) = Placed" if "100 < n" "n mod 5 = 0" for c n
    using that assms(6) unfolding bid_handler_on [OF assms(1,2)]
    by (simp add: Let_def f j) (simp add: bid_of_def)
  have p150: "fst (bid_handler a (bid_of q 150) s) = Placed" by (rule p) simp_all
  have p140: "fst (bid_handler b (bid_of q 140) s) = Placed" by (rule p) simp_all
  let ?s150 = "snd (snd (bid_handler a (bid_of q 150) s))"
  let ?s140 = "snd (snd (bid_handler b (bid_of q 140) s))"
  have s150: "roundDetails ?s150 = Some rd" "questions ?s150 = questions s"
    "currentBid ?s150 = 150" "currQuestion ?s150 = q"
    using assms(1,2,5) p150 by (auto simp: state_after aux bid_of_def)
  have s140: "roundDetails ?s140 = Some rd" "questions ?s140 = questions s"
    "currentBid ?s140 = 140" "currQuestion ?s140 = q"
    using assms(1,2,5) p140 by (auto simp: state_after aux bid_of_def)
  have r1: "fst (bid_handler b (bid_of q 140) ?s150) = Rejected Minimum"
    using assms(5,6) unfolding bid_handler_on [OF s150(1) assms(2)]
    by (simp add: Let_def s150 aux) (simp add: bid_of_def)
  have r2: "fst (bid_handler a (bid_of q 150) ?s140) = Placed"
    using assms(5,6) unfolding bid_handler_on [OF s140(1) assms(2)]
    by (simp add: Let_def s140 aux) (simp add: bid_of_def)
  have c: "currentBid (snd (snd (bid_handler a (bid_of q 150) ?s140))) = 150"
    using r2 by (simp add: state_after) (simp add: bid_of_def)
  show ?thesis using p150 p140 r1 r2 c by (simp add: Let_def)
qed

theorem two_bids_150_140_witness:
  "roundDetails active100 = Some round100 \<and> service round100 \<and>
   currentBid active100 = 100 \<and> minBid active100 = 100 \<and>
   filter (\<lambda>item. id_q item = ''q1'') (questions active100) = [q1] \<and> \<not> allocated q1 \<and>
   fst (bid_handler ''c1'' (bid_of ''q1'' 150) active100) = Placed \<and>
   fst (bid_handler ''c2'' (bid_of ''q1'' 140)
          (snd (snd (bid_handler ''c1'' (bid_of ''q1'' 150) active100)))) = Rejected Minimum"
proof -
  have h1: "roundDetails active100 = Some round100" by (simp add: scen)
  have h2: "service round100" by (simp add: scen)
  have h3: "currentBid active100 = 100" by (simp add: scen)
  have h4: "minBid active100 = 100" by (simp add: scen)
  have h5: "filter (\<lambda>item. id_q item = ''q1'') (questions active100) = q1 # []"
    by (simp add: scen)
  have h6: "\<not> allocated q1" by (simp add: scen)
  show ?thesis
    using two_bids_150_140 [OF h1 h2 h3 h4 h5 h6, of "''c1''" "''c2''"] h1 h2 h3 h4 h5 h6
    by (simp add: Let_def)
qed

subsection \<open>C2: what a rejected bid leaves behind\<close>

text \<open>
  C2 says that a rejected bid leaves current bid, history and current question as they
  were. A bid of 90 on the second question, while 150 stands on the first, is rejected
  as too small, and the globals have been reset for the second question on the way.
\<close>

theorem rejected_bid_mutates_counterexample:
  "fst (bid_handler ''c2'' (bid_of ''q2'' 90) bidding150) = Rejected Minimum \<and>
   snd (snd (bid_handler ''c2'' (bid_of ''q2'' 90) bidding150))
     = bidding150\<lparr>history := [], currentBid := 100, currQuestion := ''q2''\<rparr> \<and>
   history bidding150 \<noteq> [] \<and> currentBid bidding150 \<noteq> 100 \<and>
   currQuestion bidding150 \<noteq> ''q2''"
  by (simp add: code scen)

text \<open>
  C2 as it holds of the code. A bid that is not placed leaves the globals exactly as they
  were, unless the service is enabled and the bid names a question of the list other
  than the current one; then that question has become the current one, the history is
  empty and the current bid is the minimum bid, and nothing else has changed.
\<close>

theorem rejected_bid_state:
  assumes "fst (bid_handler sid d s) \<noteq> Placed"
  shows "snd (snd (bid_handler sid d s)) =
           (if switches d s
            then s\<lparr>history := [], currentBid := minBid s, currQuestion := questionID d\<rparr>
            else s)"
  using assms by (simp add: state_after judged_def reset_def)

theorem rejected_bid_state_witness:
  "fst (bid_handler ''c2'' (bid_of ''q1'' 90) active100) \<noteq> Placed \<and>
   \<not> switches (bid_of ''q1'' 90) active100 \<and>
   snd (snd (bid_handler ''c2'' (bid_of ''q1'' 90) active100)) = active100"
proof -
  have h: "fst (bid_handler ''c2'' (bid_of ''q1'' 90) active100) \<noteq> Placed"
    by (simp add: code scen)
  have n: "\<not> switches (bid_of ''q1'' 90) active100" by (simp add: switches_def scen)
  show ?thesis using rejected_bid_state [OF h] h n by simp
qed

subsection \<open>C3: when a bid is rejected for its denomination\<close>

text \<open>
  C3 says that a bid is rejected for its denomination exactly when its amount is not a
  multiple of 5, whatever the other checks say. A bid of 97 against a current bid of 100
  is not a multiple of 5 and is rejected as too small.
\<close>

theorem bad_denomination_counterexample:
  "bid (bid_of ''q1'' 97) mod 5 \<noteq> 0 \<and>
   fst (bid_handler ''c2'' (bid_of ''q1'' 97) active100) = Rejected Minimum \<and>
   fst (bid_handler ''c2'' (bid_of ''q1'' 97) active100) \<noteq> Rejected Denomination"
  by (simp add: code scen)

text \<open>
  C3 as it holds of the code. A bid is rejected for its denomination exactly when a round
  is loaded with the service enabled, the question is in the list and not allocated, the
  amount is above the current bid that the checks read (the minimum bid if the bid has
  switched the question) and the amount is not a multiple of 5.
\<close>

theorem bad_denomination_iff:
  "fst (bid_handler sid d s) = Rejected Denomination \<longleftrightarrow>
     (\<exists>rd. roundDetails s = Some rd \<and> service rd) \<and>
     (\<exists>q qs. filter (\<lambda>item. id_q item = questionID d) (questions s) = q # qs \<and>
             \<not> allocated q) \<and>
     currentBid (judged d s) < bid d \<and>
     bid d mod 5 \<noteq> 0"
proof (cases "roundDetails s")
  case None
  then show ?thesis by (simp add: bid_handler_uninit)
next
  case (Some rd)
  show ?thesis
  proof (cases "service rd")
    case False
    with Some show ?thesis by (simp add: bid_handler_down)
  next
    case True
    with Some show ?thesis
      by (cases "filter (\<lambda>item. id_q item = questionID d) (questions s)")
         (simp_all add: bid_handler_on Let_def)
  qed
qed

theorem bad_denomination_iff_witness:
  "fst (bid_handler ''c1'' (bid_of ''q1'' 152) active100) = Rejected Denomination \<and>
   currentBid (judged (bid_of ''q1'' 152) active100) < bid (bid_of ''q1'' 152) \<and>
   bid (bid_of ''q1'' 152) mod 5 \<noteq> 0"
proof -
  have "fst (bid_handler ''c1'' (bid_of ''q1'' 152) active100) = Rejected Denomination"
    by (simp add: code scen)
  then show ?thesis
    using bad_denomination_iff [of "''c1''" "bid_of ''q1'' 152" active100] by simp
qed

subsection \<open>C4: a push of the round\<close>

text \<open>
  C4 says that every push of the round resets the current question to a question of the
  new round, the current bid to its minimum bid, and the history to empty. The comment
  above the subscription says the same: upon changes made to the round, reset all
  globals. Here \<open>bidding150\<close> is reached from the initial globals by loading the round and
  placing 150; the round is then pushed again, and \<open>initiateRound\<close> sets the current bid
  back to 100 and leaves the entry of 150 in the history.
\<close>

theorem round_push_keeps_history:
  "run [Push round100, Bid ''c1'' (bid_of ''q1'' 150)] initial = bidding150 \<and>
   initiateRound round100 bidding150 = (None, bidding150\<lparr>currentBid := 100\<rparr>) \<and>
   history (snd (step (Push round100) bidding150)) = [\<lparr>id_h = ''c1'', bid_h = 150\<rparr>] \<and>
   currentBid (snd (step (Push round100) bidding150)) = 100"
  by (simp add: code scen)

subsection \<open>C5: the order of the admission checks\<close>

text \<open>
  C5: the decision on a bid is the first matching rule of: the service disabled, the
  question unknown, the question allocated, the amount not above the current bid, the
  amount not a multiple of 5, and otherwise the bid is placed; the reason sent is that of
  the first rule that matches. With a round loaded, the outcome of \<open>bid_handler\<close> is the
  decision of \<open>validate\<close> on the globals the checks read, which are the globals the bid
  arrived in whenever it is a bid on the current question. Of the \<open>invalid\<close> messages
  sent, exactly one carries the reason of a rejected bid and none is sent for a placed
  one; \<open>changeQuestion\<close> adds a message of type \<open>invalid\<close> of its own when it is called
  with an unknown question.
\<close>

theorem bid_admission_order:
  assumes "roundDetails s = Some cfg" and "questions s = questions_body cfg"
  shows "fst (bid_handler sid d s) = validate (judged d s) cfg d \<and>
         (questionID d = currQuestion s \<longrightarrow> fst (bid_handler sid d s) = validate s cfg d) \<and>
         filter (\<lambda>t. t \<noteq> Invalid) (invalid_types (fst (snd (bid_handler sid d s)))) =
           (case fst (bid_handler sid d s) of Rejected k \<Rightarrow> [k] | _ \<Rightarrow> [])"
  using outcome_eq [OF assms, of sid d] events_types [of sid d s]
  by (auto simp: judged_active)

theorem bid_admission_order_witness:
  "roundDetails active100 = Some round100 \<and> questions active100 = questions_body round100 \<and>
   fst (bid_handler ''c1'' (bid_of ''q1'' 152) active100)
     = validate (judged (bid_of ''q1'' 152) active100) round100 (bid_of ''q1'' 152) \<and>
   validate active100 round100 (bid_of ''q1'' 152) = Rejected Denomination \<and>
   fst (bid_handler ''c1'' (bid_of ''q1'' 152) active100) = Rejected Denomination"
proof -
  have h1: "roundDetails active100 = Some round100" by (simp add: scen)
  have h2: "questions active100 = questions_body round100" by (simp add: scen)
  have v: "validate active100 round100 (bid_of ''q1'' 152) = Rejected Denomination"
    by (simp add: validate_def scen)
  have a: "questionID (bid_of ''q1'' 152) = currQuestion active100" by (simp add: scen)
  show ?thesis
    using bid_admission_order [OF h1 h2, of "''c1''" "bid_of ''q1'' 152"] h1 h2 v a
      judged_active [OF a]
    by simp
qed

subsection \<open>C6: the switch of the question and the checks\<close>

text \<open>
  C6 says that whenever a bid names a question of the list other than the current one,
  the history is emptied, the current bid reset to the minimum bid and the current
  question updated before that bid is validated. With the service disabled the bid is
  turned away at the first check and nothing is reset. Load \<open>round100\<close>, let \<open>c1\<close> place
  150 on the first question, and let the round be pushed with the service disabled: a
  bid on the second question is then rejected for the disabled service, and the first
  question is still the current one, with the entry of 150 still in the history.
\<close>

theorem no_switch_when_disabled_counterexample:
  "currQuestion (run [Push round100, Bid ''c1'' (bid_of ''q1'' 150), Push closed100] initial)
     = ''q1'' \<and>
   history (run [Push round100, Bid ''c1'' (bid_of ''q1'' 150), Push closed100] initial)
     = [\<lparr>id_h = ''c1'', bid_h = 150\<rparr>] \<and>
   questionID (bid_of ''q2'' 120)
     \<noteq> currQuestion
         (run [Push round100, Bid ''c1'' (bid_of ''q1'' 150), Push closed100] initial) \<and>
   questionID (bid_of ''q2'' 120)
     \<in> set (map id_q (questions
         (run [Push round100, Bid ''c1'' (bid_of ''q1'' 150), Push closed100] initial))) \<and>
   fst (bid_handler ''c2'' (bid_of ''q2'' 120)
         (run [Push round100, Bid ''c1'' (bid_of ''q1'' 150), Push closed100] initial))
     = Rejected Down \<and>
   snd (snd (bid_handler ''c2'' (bid_of ''q2'' 120)
         (run [Push round100, Bid ''c1'' (bid_of ''q1'' 150), Push closed100] initial)))
     = run [Push round100, Bid ''c1'' (bid_of ''q1'' 150), Push closed100] initial"
  by (simp add: code scen)

text \<open>
  C6 as it holds of the code. Let a round be loaded and a bid name a question of the list
  other than the current one. If the service is enabled, the history is emptied, the
  current bid reset to the minimum bid and the current question updated before the
  question, allocation, minimum and denomination checks of that bid: the handler does
  what it does on the reset globals, after the broadcast of the empty history and the
  allocation request. If the service is disabled, the bid is rejected for that and the
  globals stay as they were.
\<close>

theorem transition_before_validation:
  assumes "roundDetails s = Some rd"
    and "questionID d \<noteq> currQuestion s"
    and "questionID d \<in> set (map id_q (questions s))"
  shows "(service rd \<longrightarrow>
            bid_handler sid d s =
              (case bid_handler sid d
                      (s\<lparr>history := [], currentBid := minBid s,
                         currQuestion := questionID d\<rparr>) of
                 (out, ev, s') \<Rightarrow>
                   (out, [Io_history [], Put_allocate (questionID d)] @ ev, s'))) \<and>
         (\<not> service rd \<longrightarrow>
            fst (bid_handler sid d s) = Rejected Down \<and>
            snd (snd (bid_handler sid d s)) = s)"
proof (cases "service rd")
  case False
  with assms(1) show ?thesis by (simp add: bid_handler_down)
next
  case True
  let ?r = "s\<lparr>history := [], currentBid := minBid s, currQuestion := questionID d\<rparr>"
  from assms(3) have ne: "filter (\<lambda>item. id_q item = questionID d) (questions s) \<noteq> []"
    by (simp add: filter_empty_iff)
  have j: "judged d s = ?r" using assms True ne by (simp add: aux)
  have j': "judged d ?r = ?r" by (simp add: aux)
  have r: "roundDetails ?r = Some rd" using assms(1) by simp
  have "bid_handler sid d s =
          (case bid_handler sid d ?r of
             (out, ev, s') \<Rightarrow> (out, [Io_history [], Put_allocate (questionID d)] @ ev, s'))"
    unfolding bid_handler_on [OF assms(1) True] bid_handler_on [OF r True] j j'
    using assms(2) ne by (simp add: changeQuestion_def Let_def)
  with True show ?thesis by simp
qed

theorem transition_before_validation_witness:
  "roundDetails bidding150 = Some round100 \<and> service round100 \<and>
   questionID (bid_of ''q2'' 120) \<noteq> currQuestion bidding150 \<and>
   questionID (bid_of ''q2'' 120) \<in> set (map id_q (questions bidding150)) \<and>
   bid_handler ''c2'' (bid_of ''q2'' 120) bidding150 =
     (Placed,
      [Io_history [], Put_allocate ''q2'', Log_bid ''c2'' 120 120,
       Io_history [\<lparr>id_h = ''c2'', bid_h = 120\<rparr>], Emit_alert ''Bid placed''],
      active100\<lparr>currentBid := 120, history := [\<lparr>id_h = ''c2'', bid_h = 120\<rparr>],
                currQuestion := ''q2''\<rparr>)"
proof -
  have h1: "roundDetails bidding150 = Some round100" by (simp add: scen)
  have h2: "service round100" by (simp add: scen)
  have h3: "questionID (bid_of ''q2'' 120) \<noteq> currQuestion bidding150" by (simp add: scen)
  have h4: "questionID (bid_of ''q2'' 120) \<in> set (map id_q (questions bidding150))"
    by (simp add: scen)
  have e: "bid_handler ''c2'' (bid_of ''q2'' 120)
             (bidding150\<lparr>history := [], currentBid := minBid bidding150,
                 currQuestion := questionID (bid_of ''q2'' 120)\<rparr>) =
           (Placed,
            [Log_bid ''c2'' 120 120, Io_history [\<lparr>id_h = ''c2'', bid_h = 120\<rparr>],
             Emit_alert ''Bid placed''],
            active100\<lparr>currentBid := 120, history := [\<lparr>id_h = ''c2'', bid_h = 120\<rparr>],
                      currQuestion := ''q2''\<rparr>)"
    by (simp add: code scen)
  have q: "questionID (bid_of ''q2'' 120) = ''q2''" by (simp add: scen)
  have "bid_handler ''c2'' (bid_of ''q2'' 120) bidding150 =
     (Placed,
      [Io_history [], Put_allocate ''q2'', Log_bid ''c2'' 120 120,
       Io_history [\<lparr>id_h = ''c2'', bid_h = 120\<rparr>], Emit_alert ''Bid placed''],
      active100\<lparr>currentBid := 120, history := [\<lparr>id_h = ''c2'', bid_h = 120\<rparr>],
                currQuestion := ''q2''\<rparr>)"
    using transition_before_validation [OF h1 h3 h4, of "''c2''"] h2
    by (simp only: e [unfolded q] q prod.case append_Cons append_Nil simp_thms)
  with h1 h2 h3 h4 show ?thesis by blast
qed

subsection \<open>C7: the history and the placed bids\<close>

text \<open>
  C7 says that the history after the bids handled during one activation of a question,
  with no switch and no push in between, is exactly the list of the placed bids in
  order. Load the round, let \<open>c1\<close> switch to the second question with a bid of 150, and
  push the round again: the first question is active anew. The one bid handled in this
  activation, 120 by \<open>c2\<close>, is placed, and the history holds the 150 of the activation
  before as well. The bid handler appends exactly the placed bids (\<open>history_growth\<close>); it
  is \<open>initiateRound\<close> that starts the activation without emptying the history.
\<close>

theorem history_keeps_earlier_activation:
  "currQuestion (run [Push round100, Bid ''c1'' (bid_of ''q2'' 150)] initial) = ''q2'' \<and>
   currQuestion (run [Push round100, Bid ''c1'' (bid_of ''q2'' 150), Push round100] initial)
     = ''q1'' \<and>
   no_switch [(''c2'', bid_of ''q1'' 120)]
     (run [Push round100, Bid ''c1'' (bid_of ''q2'' 150), Push round100] initial) \<and>
   accepted [(''c2'', bid_of ''q1'' 120)]
     (run [Push round100, Bid ''c1'' (bid_of ''q2'' 150), Push round100] initial)
     = [\<lparr>id_h = ''c2'', bid_h = 120\<rparr>] \<and>
   history (run (bids [(''c2'', bid_of ''q1'' 120)])
     (run [Push round100, Bid ''c1'' (bid_of ''q2'' 150), Push round100] initial))
     = [\<lparr>id_h = ''c1'', bid_h = 150\<rparr>, \<lparr>id_h = ''c2'', bid_h = 120\<rparr>]"
  by (simp add: code scen switches_def bids_def)

subsection \<open>C8: the current bid and the minimum bid\<close>

text \<open>
  C8 says that while a question stays active no handled bid lowers the current bid, and
  that in all globals reachable after initialization the current bid is at least the
  minimum bid of the round in effect. The bid handler and \<open>changeQuestion\<close> keep both
  (\<open>bid_raises\<close>, \<open>initialized_invariant\<close>), and so does a push of a round that lists a
  question. A round that lists none makes \<open>initiateRound\<close> throw at \<open>questions[0].id\<close>,
  after \<open>minBid\<close> is assigned and before \<open>currentBid = minBid\<close> is reached: pushed after
  \<open>round100\<close> was loaded, \<open>empty200\<close> leaves a minimum bid of 200 in effect and a current
  bid of 100.
\<close>

theorem current_bid_below_minimum_after_push:
  "run [Push round100] initial = active100 \<and>
   initiateRound empty200 active100 =
     (Some TypeError,
      active100\<lparr>roundDetails := Some empty200, questions := [], minBid := 200\<rparr>) \<and>
   roundDetails (run [Push round100, Push empty200] initial) = Some empty200 \<and>
   minBid_body empty200 = 200 \<and>
   minBid (run [Push round100, Push empty200] initial) = 200 \<and>
   currentBid (run [Push round100, Push empty200] initial) = 100"
  by (simp add: code scen)

subsection \<open>C9: a bid before the first round is loaded\<close>

text \<open>
  C9 says that a bid that arrives before the first round has been loaded is rejected
  with a reason equivalent to that of a disabled service and logged, that this is not
  fatal, and that the globals are not touched. The handler rejects a bid for a disabled
  service by sending the bidder an \<open>invalid\<close> message of type \<open>down\<close>; before the first
  load \<open>roundDetails\<close> is still \<open>undefined\<close>, and reading its \<open>body\<close> for that very check
  throws. For a bid of 150 by \<open>c1\<close> in the initial globals the handler ends with the
  exception, no \<open>invalid\<close> message of any type has been sent, and the only trace is the
  line the process-level handler logs; the globals are as they were.
\<close>

theorem bid_before_first_load_throws:
  "roundDetails initial = None \<and>
   bid_handler ''c1'' (bid_of ''q1'' 150) initial = (Thrown TypeError, [], initial) \<and>
   fst (bid_handler ''c1'' (bid_of ''q1'' 150) initial) \<noteq> Rejected Down \<and>
   invalid_types (fst (snd (bid_handler ''c1'' (bid_of ''q1'' 150) initial))) = [] \<and>
   step (Bid ''c1'' (bid_of ''q1'' 150)) initial = ([Log_exn TypeError], initial)"
  by (simp add: code scen)

subsection \<open>C10: the current bid and the last entry of the history\<close>

text \<open>
  C10 says that during one activation of a question, whenever the history is not empty,
  the current bid is the amount of its last entry, and every recorded amount is a
  multiple of 5. Load the round, let \<open>c1\<close> switch to the second question with a bid of
  150, and push the round again: the first question is active, the history holds the
  entry of 150 and the current bid is 100. The recorded amounts are multiples of 5 all
  the same, and an activation that starts with an empty history keeps both properties
  (\<open>during_activation_invariant\<close>).
\<close>

theorem current_bid_is_not_last_entry_after_push:
  "currQuestion (run [Push round100, Bid ''c1'' (bid_of ''q2'' 150), Push round100] initial)
     = ''q1'' \<and>
   history (run [Push round100, Bid ''c1'' (bid_of ''q2'' 150), Push round100] initial)
     = [\<lparr>id_h = ''c1'', bid_h = 150\<rparr>] \<and>
   currentBid (run [Push round100, Bid ''c1'' (bid_of ''q2'' 150), Push round100] initial)
     = 100 \<and>
   bid_h (last (history
     (run [Push round100, Bid ''c1'' (bid_of ''q2'' 150), Push round100] initial))) = 150"
  by (simp add: code scen)

end
